theory Spec2Isabelle
  imports Main "HOL-Library.Word" "HOL-Library.Sublist"
begin

section \<open>The unanimous closing protocol of the validator (validator/unanimous.go)\<close>

text \<open>
  The file \<^verbatim>\<open>validator/unanimous.go\<close> defines four structs, each with the two methods
  \<^verbatim>\<open>UpdateTime\<close> and \<^verbatim>\<open>UpdateState\<close> of the \<^verbatim>\<open>validatorState\<close> interface. The embedding
  below keeps one record per struct and one function per method.

  Conventions of the embedding:
  \<^item> \<^verbatim>\<open>uint64\<close> is \<open>64 word\<close>: \<open>+\<close> wraps around, \<open><\<close> and \<open>\<le>\<close> compare unsigned values.
  \<^item> The receiver is called \<^verbatim>\<open>bot\<close> in the source; it is \<open>b\<close> here, since \<open>bot\<close> is a
    constant of HOL.
  \<^item> A Go interface value or channel that may be \<^verbatim>\<open>nil\<close> is an \<open>option\<close>; a \<^verbatim>\<open>nil\<close> slice
    is the empty list.
  \<^item> The embedded pointers \<^verbatim>\<open>*validatorConfig\<close> and \<^verbatim>\<open>*validatorCore\<close> are taken to be
    non-nil: the configuration is only read, so it is held by value; the core is shared
    and mutated by \<^verbatim>\<open>DeliverMessagesToVM\<close>, so a state holds its address and the core
    itself lives in the heap of the world.
  \<^item> A send on \<^verbatim>\<open>retChan\<close> is recorded in the trace of the world and completes; blocking
    on an unbuffered channel and sends on a closed channel are outside the embedding.
\<close>

subsection \<open>Data\<close>

type_synonym uint64 = "64 word"

text \<open>The identity of a Go channel of type \<^verbatim>\<open>chan<- bool\<close>.\<close>
type_synonym chan = nat

text \<open>The address held by a \<^verbatim>\<open>*validatorCore\<close>.\<close>
type_synonym coreRef = nat

text \<open>
  The declaration of \<^verbatim>\<open>validatorConfig\<close> is not part of the file. The only access is
  \<^verbatim>\<open>bot.config.GracePeriod\<close>, a \<^verbatim>\<open>uint64\<close> added to the time; the two records have these
  fields and are extensible for the rest.
\<close>
record vmConfiguration =
  GracePeriod :: uint64

record validatorConfig =
  config :: vmConfiguration

text \<open>
  The events of package \<^verbatim>\<open>ethbridge\<close> that the type switches name; of their fields only
  \<^verbatim>\<open>SequenceNum\<close> is read. \<open>OtherEvent\<close> stands for every other dynamic type of an
  \<^verbatim>\<open>ethbridge.Event\<close>, the \<^verbatim>\<open>nil\<close> interface value included: all of them reach the
  \<^verbatim>\<open>default\<close> branch of every switch.
\<close>
datatype Event =
    ProposedUnanimousAssertEvent (SequenceNum: uint64)
  | DisputableAssertionEvent
  | FinalUnanimousAssertEvent
  | ConfirmedUnanimousAssertEvent
  | OtherEvent nat

text \<open>
  Errors: \<^verbatim>\<open>errors.New(s)\<close> is \<open>errorString s\<close>; the struct literal \<^verbatim>\<open>&Error{nil, s}\<close> of the
  package's own error type is \<open>Error None s\<close>.
\<close>
datatype error =
    errorString string
  | Error "error option" string

text \<open>
  The one outgoing message that the file builds. \<open>'h\<close> is the type of an inbox hash and
  \<open>'a\<close> the type of a \<^verbatim>\<open>*protocol.Assertion\<close>, which the file never dereferences.
\<close>
datatype ('h, 'a) OutgoingMessage =
  SendConfirmUnanimousAssertedMessage (NewInboxHash: 'h) (Assertion: 'a)

text \<open>The interface \<^verbatim>\<open>challengeState\<close> is declared elsewhere; the file only returns \<^verbatim>\<open>nil\<close>.\<close>
typedecl challengeState

record 'a attemptingUnanimousClosing =
  validatorConfig :: validatorConfig
  validatorCore :: coreRef
  assertion :: 'a
  retChan :: "chan option"

record 'a attemptingOffchainClosing =
  validatorConfig :: validatorConfig
  validatorCore :: coreRef
  sequenceNum :: uint64
  assertion :: 'a
  retChan :: "chan option"

record 'a waitingOffchainClosing =
  validatorConfig :: validatorConfig
  validatorCore :: coreRef
  assertion :: 'a
  deadline :: uint64
  retChan :: "chan option"

record finalizingOffchainClosing =
  validatorConfig :: validatorConfig
  validatorCore :: coreRef
  retChan :: "chan option"

text \<open>
  A non-nil value of the interface \<^verbatim>\<open>validatorState\<close>: one constructor per dynamic type.
  \<open>WaitingObserver\<close> is the type of the values that \<^verbatim>\<open>NewWaitingObserver\<close> returns; its
  methods are outside the file.
\<close>
datatype 'a validatorState =
    AttemptingUnanimousClosing "'a attemptingUnanimousClosing"
  | AttemptingOffchainClosing "'a attemptingOffchainClosing"
  | WaitingOffchainClosing "'a waitingOffchainClosing"
  | FinalizingOffchainClosing finalizingOffchainClosing
  | WaitingObserver validatorConfig coreRef

text \<open>
  Modelled from the spec: \<^verbatim>\<open>NewWaitingObserver\<close> is called but not defined in the file. The
  spec calls its result "the terminal waiting-observer successor state (outside this
  core)"; it is built from the configuration and the core, and not from the assertion or
  the channel.
\<close>
definition NewWaitingObserver :: "validatorConfig \<Rightarrow> coreRef \<Rightarrow> 'a validatorState" where
  "NewWaitingObserver cfg core = WaitingObserver cfg core"

subsection \<open>Effects\<close>

text \<open>
  What a call does besides returning: it sends a boolean on a channel, or it calls
  \<^verbatim>\<open>DeliverMessagesToVM\<close> on a core. The trace of the world lists these in the order in
  which they happen; the heap holds the cores, of a type \<open>'c\<close>.
\<close>
datatype effect =
    Sent chan bool
  | Delivered coreRef

record 'c world =
  heap :: "coreRef \<Rightarrow> 'c"
  trace :: "effect list"

text \<open>
  The methods of \<^verbatim>\<open>validatorCore\<close> and of its inbox are not part of the file. They are
  parameters of the embedding: \<open>GetCore\<close> for \<^verbatim>\<open>bot.GetCore()\<close>, \<open>deliver\<close> for what
  \<^verbatim>\<open>DeliverMessagesToVM()\<close> does to the core it is called on, and \<open>inboxReceiveHash\<close> for
  the value of \<^verbatim>\<open>core.inbox.Receive().Hash()\<close>, read from the core.
\<close>
record ('c, 'h) collaborators =
  GetCore :: "coreRef \<Rightarrow> coreRef"
  deliver :: "'c \<Rightarrow> 'c"
  inboxReceiveHash :: "'c \<Rightarrow> 'h"

text \<open>\<^verbatim>\<open>if bot.retChan != nil { bot.retChan <- v }\<close>\<close>
definition sendIfPresent :: "chan option \<Rightarrow> bool \<Rightarrow> 'c world \<Rightarrow> 'c world" where
  "sendIfPresent ch v w =
     (case ch of
        None \<Rightarrow> w
      | Some c \<Rightarrow> w\<lparr>trace := trace w @ [Sent c v]\<rparr>)"

text \<open>\<^verbatim>\<open>core.DeliverMessagesToVM()\<close>\<close>
definition DeliverMessagesToVM :: "('c, 'h) collaborators \<Rightarrow> coreRef \<Rightarrow> 'c world \<Rightarrow> 'c world" where
  "DeliverMessagesToVM X core w =
     w\<lparr>heap := (heap w)(core := deliver X (heap w core)),
       trace := trace w @ [Delivered core]\<rparr>"

text \<open>The message of the package's desynchronisation error.\<close>
definition unsynchronized :: error where
  "unsynchronized = Error None ''ERROR: waitingAssertDefender: VM state got unsynchronized''"

subsection \<open>attemptingUnanimousClosing\<close>

type_synonym ('a, 'h) timeResult =
  "'a validatorState option \<times> ('h, 'a) OutgoingMessage list \<times> error option"

type_synonym ('a, 'h) stateResult =
  "'a validatorState option \<times> challengeState option \<times> ('h, 'a) OutgoingMessage list \<times> error option"

definition attemptingUnanimousClosing_UpdateTime ::
  "'a attemptingUnanimousClosing \<Rightarrow> uint64 \<Rightarrow> ('a, 'h) timeResult" where
  "attemptingUnanimousClosing_UpdateTime b time = (Some (AttemptingUnanimousClosing b), [], None)"

definition attemptingUnanimousClosing_UpdateState ::
  "('c, 'h) collaborators \<Rightarrow> 'a attemptingUnanimousClosing \<Rightarrow> Event \<Rightarrow> uint64 \<Rightarrow> 'c world
     \<Rightarrow> ('a, 'h) stateResult \<times> 'c world" where
  "attemptingUnanimousClosing_UpdateState X b ev time w =
     (case ev of
        ProposedUnanimousAssertEvent n \<Rightarrow>
          ((Some (AttemptingUnanimousClosing b), None, [], None), w)
      | DisputableAssertionEvent \<Rightarrow>
          ((Some (AttemptingUnanimousClosing b), None, [], None), w)
      | FinalUnanimousAssertEvent \<Rightarrow>
          (let w1 = sendIfPresent (attemptingUnanimousClosing.retChan b) True w;
               w2 = DeliverMessagesToVM X (attemptingUnanimousClosing.validatorCore b) w1
           in ((Some (NewWaitingObserver (attemptingUnanimousClosing.validatorConfig b)
                        (attemptingUnanimousClosing.validatorCore b)), None, [], None), w2))
      | _ \<Rightarrow> ((None, None, [], Some unsynchronized), w))"

subsection \<open>attemptingOffchainClosing\<close>

definition attemptingOffchainClosing_UpdateTime ::
  "'a attemptingOffchainClosing \<Rightarrow> uint64 \<Rightarrow> ('a, 'h) timeResult" where
  "attemptingOffchainClosing_UpdateTime b time = (Some (AttemptingOffchainClosing b), [], None)"

definition attemptingOffchainClosing_UpdateState ::
  "('c, 'h) collaborators \<Rightarrow> 'a attemptingOffchainClosing \<Rightarrow> Event \<Rightarrow> uint64 \<Rightarrow> 'c world
     \<Rightarrow> ('a, 'h) stateResult \<times> 'c world" where
  "attemptingOffchainClosing_UpdateState X b ev time w =
     (case ev of
        ProposedUnanimousAssertEvent n \<Rightarrow>
          (if n < sequenceNum b then
             ((Some (AttemptingOffchainClosing b), None, [], None), w)
           else if n > sequenceNum b then
             ((None, None, [], Some (errorString ''unanimous assertion unexpectedly superseded'')),
              sendIfPresent (attemptingOffchainClosing.retChan b) False w)
           else
             ((Some (WaitingOffchainClosing
                 \<lparr> waitingOffchainClosing.validatorConfig = attemptingOffchainClosing.validatorConfig b,
                   validatorCore = GetCore X (attemptingOffchainClosing.validatorCore b),
                   assertion = attemptingOffchainClosing.assertion b,
                   deadline = time + GracePeriod (config (attemptingOffchainClosing.validatorConfig b)),
                   retChan = attemptingOffchainClosing.retChan b \<rparr>), None, [], None), w))
      | DisputableAssertionEvent \<Rightarrow>
          ((Some (AttemptingOffchainClosing b), None, [], None), w)
      | FinalUnanimousAssertEvent \<Rightarrow>
          ((None, None, [],
            Some (errorString ''unanimous assertion unexpectedly superseded by final assert'')),
           sendIfPresent (attemptingOffchainClosing.retChan b) False w)
      | _ \<Rightarrow>
          ((None, None, [], Some unsynchronized),
           sendIfPresent (attemptingOffchainClosing.retChan b) False w))"

subsection \<open>waitingOffchainClosing\<close>

definition waitingOffchainClosing_UpdateTime ::
  "('c, 'h) collaborators \<Rightarrow> 'c world \<Rightarrow> 'a waitingOffchainClosing \<Rightarrow> uint64 \<Rightarrow> ('a, 'h) timeResult" where
  "waitingOffchainClosing_UpdateTime X w b time =
     (if time > deadline b then
        (Some (FinalizingOffchainClosing
           \<lparr> finalizingOffchainClosing.validatorConfig = waitingOffchainClosing.validatorConfig b,
             validatorCore = waitingOffchainClosing.validatorCore b,
             retChan = waitingOffchainClosing.retChan b \<rparr>),
         [SendConfirmUnanimousAssertedMessage
            (inboxReceiveHash X (heap w (waitingOffchainClosing.validatorCore b)))
            (waitingOffchainClosing.assertion b)],
         None)
      else (Some (WaitingOffchainClosing b), [], None))"

definition waitingOffchainClosing_UpdateState ::
  "('c, 'h) collaborators \<Rightarrow> 'a waitingOffchainClosing \<Rightarrow> Event \<Rightarrow> uint64 \<Rightarrow> 'c world
     \<Rightarrow> ('a, 'h) stateResult \<times> 'c world" where
  "waitingOffchainClosing_UpdateState X b ev time w =
     (case ev of
        ProposedUnanimousAssertEvent n \<Rightarrow>
          ((None, None, [],
            Some (errorString ''unanimous assertion unexpectedly superseded by sequence number'')),
           sendIfPresent (waitingOffchainClosing.retChan b) False w)
      | FinalUnanimousAssertEvent \<Rightarrow>
          ((None, None, [],
            Some (errorString ''unanimous assertion unexpectedly superseded by final assert'')),
           sendIfPresent (waitingOffchainClosing.retChan b) False w)
      | _ \<Rightarrow>
          ((None, None, [], Some unsynchronized),
           sendIfPresent (waitingOffchainClosing.retChan b) False w))"

subsection \<open>finalizingOffchainClosing\<close>

definition finalizingOffchainClosing_UpdateTime ::
  "finalizingOffchainClosing \<Rightarrow> uint64 \<Rightarrow> ('a, 'h) timeResult" where
  "finalizingOffchainClosing_UpdateTime b time = (Some (FinalizingOffchainClosing b), [], None)"

definition finalizingOffchainClosing_UpdateState ::
  "('c, 'h) collaborators \<Rightarrow> finalizingOffchainClosing \<Rightarrow> Event \<Rightarrow> uint64 \<Rightarrow> 'c world
     \<Rightarrow> ('a, 'h) stateResult \<times> 'c world" where
  "finalizingOffchainClosing_UpdateState X b ev time w =
     (case ev of
        ConfirmedUnanimousAssertEvent \<Rightarrow>
          (let w1 = DeliverMessagesToVM X (GetCore X (validatorCore b)) w;
               w2 = sendIfPresent (retChan b) True w1
           in ((Some (NewWaitingObserver (validatorConfig b) (validatorCore b)), None, [], None), w2))
      | _ \<Rightarrow> ((None, None, [], Some unsynchronized), w))"

subsection \<open>The interface and its driver\<close>

text \<open>
  A call through the interface \<^verbatim>\<open>validatorState\<close> runs the method of the dynamic type.
  The methods of the waiting observer are not in the file: the dispatch gives \<open>None\<close>
  there.
\<close>
fun UpdateTime ::
  "('c, 'h) collaborators \<Rightarrow> 'c world \<Rightarrow> 'a validatorState \<Rightarrow> uint64 \<Rightarrow> ('a, 'h) timeResult option" where
  "UpdateTime X w (AttemptingUnanimousClosing b) t = Some (attemptingUnanimousClosing_UpdateTime b t)"
| "UpdateTime X w (AttemptingOffchainClosing b) t = Some (attemptingOffchainClosing_UpdateTime b t)"
| "UpdateTime X w (WaitingOffchainClosing b) t = Some (waitingOffchainClosing_UpdateTime X w b t)"
| "UpdateTime X w (FinalizingOffchainClosing b) t = Some (finalizingOffchainClosing_UpdateTime b t)"
| "UpdateTime X w (WaitingObserver cfg core) t = None"

fun UpdateState ::
  "('c, 'h) collaborators \<Rightarrow> 'a validatorState \<Rightarrow> Event \<Rightarrow> uint64 \<Rightarrow> 'c world
     \<Rightarrow> (('a, 'h) stateResult \<times> 'c world) option" where
  "UpdateState X (AttemptingUnanimousClosing b) ev t w =
     Some (attemptingUnanimousClosing_UpdateState X b ev t w)"
| "UpdateState X (AttemptingOffchainClosing b) ev t w =
     Some (attemptingOffchainClosing_UpdateState X b ev t w)"
| "UpdateState X (WaitingOffchainClosing b) ev t w =
     Some (waitingOffchainClosing_UpdateState X b ev t w)"
| "UpdateState X (FinalizingOffchainClosing b) ev t w =
     Some (finalizingOffchainClosing_UpdateState X b ev t w)"
| "UpdateState X (WaitingObserver cfg core) ev t w = None"

text \<open>
  Modelled from the spec: the driver loop is not part of the file. The spec's driver
  contract: it "repeatedly calls \<^verbatim>\<open>advanceTime(t)\<close> or \<^verbatim>\<open>handleEvent(ev, t)\<close> on the current
  state; each call yields (nextState, outgoingMessages, error); the driver is responsible
  for actually transmitting outgoing messages and for stopping once nextState is nil". A
  round also ends when the machine "transitions out of this subsystem entirely" into the
  waiting observer. \<open>drive\<close> runs a list of calls under this contract and gathers the
  final state, the outgoing messages, the errors and the final world.
\<close>
datatype call =
    AdvanceTime uint64
  | HandleEvent Event uint64

fun driverCall ::
  "('c, 'h) collaborators \<Rightarrow> 'a validatorState \<Rightarrow> call \<Rightarrow> 'c world
     \<Rightarrow> (('a, 'h) timeResult \<times> 'c world) option" where
  "driverCall X s (AdvanceTime t) w =
     (case UpdateTime X w s t of
        None \<Rightarrow> None
      | Some r \<Rightarrow> Some (r, w))"
| "driverCall X s (HandleEvent ev t) w =
     (case UpdateState X s ev t w of
        None \<Rightarrow> None
      | Some ((st, ch, ms, e), w') \<Rightarrow> Some ((st, ms, e), w'))"

record ('a, 'c, 'h) outcome =
  finalState :: "'a validatorState option"
  outgoing :: "('h, 'a) OutgoingMessage list"
  errors :: "error list"
  finalWorld :: "'c world"

fun drive ::
  "('c, 'h) collaborators \<Rightarrow> 'a validatorState \<Rightarrow> call list \<Rightarrow> 'c world \<Rightarrow> ('a, 'c, 'h) outcome" where
  "drive X s [] w = \<lparr> finalState = Some s, outgoing = [], errors = [], finalWorld = w \<rparr>"
| "drive X s (c # cs) w =
     (case driverCall X s c w of
        None \<Rightarrow> \<lparr> finalState = Some s, outgoing = [], errors = [], finalWorld = w \<rparr>
      | Some ((None, ms, e), w') \<Rightarrow>
          \<lparr> finalState = None, outgoing = ms,
            errors = (case e of None \<Rightarrow> [] | Some x \<Rightarrow> [x]), finalWorld = w' \<rparr>
      | Some ((Some s', ms, e), w') \<Rightarrow>
          (let r = drive X s' cs w'
           in r\<lparr> outgoing := ms @ outgoing r,
                 errors := (case e of None \<Rightarrow> [] | Some x \<Rightarrow> [x]) @ errors r \<rparr>))"

subsection \<open>Observations on traces and states\<close>

text \<open>The values sent on channels, and the cores delivered to, in the order of a trace.\<close>
fun sends :: "effect list \<Rightarrow> (chan \<times> bool) list" where
  "sends [] = []"
| "sends (Sent c v # es) = (c, v) # sends es"
| "sends (Delivered core # es) = sends es"

fun deliveries :: "effect list \<Rightarrow> coreRef list" where
  "deliveries [] = []"
| "deliveries (Sent c v # es) = deliveries es"
| "deliveries (Delivered core # es) = core # deliveries es"

text \<open>What a world \<open>w'\<close> has in its trace beyond the trace of an earlier world \<open>w\<close>.\<close>
definition newEffects :: "'c world \<Rightarrow> 'c world \<Rightarrow> effect list" where
  "newEffects w w' = drop (length (trace w)) (trace w')"

text \<open>The \<^verbatim>\<open>retChan\<close> of a state; the waiting observer has no such field.\<close>
fun handoff :: "'a validatorState \<Rightarrow> chan option" where
  "handoff (AttemptingUnanimousClosing b) = attemptingUnanimousClosing.retChan b"
| "handoff (AttemptingOffchainClosing b) = attemptingOffchainClosing.retChan b"
| "handoff (WaitingOffchainClosing b) = waitingOffchainClosing.retChan b"
| "handoff (FinalizingOffchainClosing b) = finalizingOffchainClosing.retChan b"
| "handoff (WaitingObserver cfg core) = None"

text \<open>A round is over at a \<^verbatim>\<open>nil\<close> state and at the waiting observer.\<close>
fun roundOver :: "'a validatorState option \<Rightarrow> bool" where
  "roundOver None = True"
| "roundOver (Some (WaitingObserver cfg core)) = True"
| "roundOver (Some s) = False"

text \<open>
  How many outgoing messages a state can still lead to: only the step from
  \<open>WaitingOffchainClosing\<close> to \<open>FinalizingOffchainClosing\<close> builds one.
\<close>
fun msgBudget :: "'a validatorState \<Rightarrow> nat" where
  "msgBudget (AttemptingOffchainClosing b) = 1"
| "msgBudget (WaitingOffchainClosing b) = 1"
| "msgBudget s = 0"

subsection \<open>Sample values\<close>

text \<open>
  Cores are natural numbers here: delivery increments the core, the inbox hash is the core
  itself, and the heap holds at every address the address itself.
\<close>
definition X0 :: "(nat, nat) collaborators" where
  "X0 = \<lparr> GetCore = id, deliver = Suc, inboxReceiveHash = id \<rparr>"

definition w0 :: "nat world" where
  "w0 = \<lparr> heap = id, trace = [] \<rparr>"

definition cfg0 :: validatorConfig where
  "cfg0 = \<lparr> config = \<lparr> GracePeriod = 20 \<rparr> \<rparr>"

definition unanimous0 :: "nat attemptingUnanimousClosing" where
  "unanimous0 = \<lparr> attemptingUnanimousClosing.validatorConfig = cfg0, validatorCore = 7,
                   assertion = 42, retChan = Some 1 \<rparr>"

definition offchain0 :: "nat attemptingOffchainClosing" where
  "offchain0 = \<lparr> attemptingOffchainClosing.validatorConfig = cfg0, validatorCore = 7,
                  sequenceNum = 5, assertion = 42, retChan = Some 1 \<rparr>"

definition waiting0 :: "nat waitingOffchainClosing" where
  "waiting0 = \<lparr> waitingOffchainClosing.validatorConfig = cfg0, validatorCore = 7,
                 assertion = 42, deadline = 30, retChan = Some 1 \<rparr>"

definition finalizing0 :: finalizingOffchainClosing where
  "finalizing0 = \<lparr> finalizingOffchainClosing.validatorConfig = cfg0, validatorCore = 7,
                    retChan = Some 1 \<rparr>"

section \<open>Properties\<close>

subsection \<open>Traces\<close>

lemma sends_append: "sends (xs @ ys) = sends xs @ sends ys"
  by (induction xs rule: sends.induct) auto

lemma trace_sendIfPresent:
  "trace (sendIfPresent ch v w) = trace w @ (case ch of None \<Rightarrow> [] | Some c \<Rightarrow> [Sent c v])"
  by (simp add: sendIfPresent_def split: option.splits)

lemma trace_DeliverMessagesToVM:
  "trace (DeliverMessagesToVM X core w) = trace w @ [Delivered core]"
  by (simp add: DeliverMessagesToVM_def)

subsection \<open>One call of the driver\<close>

text \<open>
  A call only extends the trace. It sends nothing and keeps the channel, unless the round
  is over after it; or it sends one value, on the channel of the state, and the round is
  over.
\<close>
lemma driverCall_sends:
  assumes "driverCall X s c w = Some ((st, ms, e), w')"
  shows "\<exists>es. trace w' = trace w @ es \<and>
           ((sends es = [] \<and> (roundOver st \<or> (\<exists>s'. st = Some s' \<and> handoff s' = handoff s)))
          \<or> (\<exists>ch v. handoff s = Some ch \<and> sends es = [(ch, v)] \<and> roundOver st))"
proof (cases c)
  case (AdvanceTime t)
  with assms show ?thesis
    by (cases s)
       (auto simp: attemptingUnanimousClosing_UpdateTime_def attemptingOffchainClosing_UpdateTime_def
          waitingOffchainClosing_UpdateTime_def finalizingOffchainClosing_UpdateTime_def
          split: if_splits)
next
  case (HandleEvent ev t)
  show ?thesis
  proof (cases s)
    case (AttemptingUnanimousClosing b)
    with assms HandleEvent show ?thesis
      by (cases ev; cases "attemptingUnanimousClosing.retChan b")
         (auto simp: attemptingUnanimousClosing_UpdateState_def trace_sendIfPresent
            trace_DeliverMessagesToVM NewWaitingObserver_def Let_def)
  next
    case (AttemptingOffchainClosing b)
    with assms HandleEvent show ?thesis
      by (cases ev; cases "attemptingOffchainClosing.retChan b")
         (auto simp: attemptingOffchainClosing_UpdateState_def trace_sendIfPresent
            split: if_splits)
  next
    case (WaitingOffchainClosing b)
    with assms HandleEvent show ?thesis
      by (cases ev; cases "waitingOffchainClosing.retChan b")
         (auto simp: waitingOffchainClosing_UpdateState_def trace_sendIfPresent)
  next
    case (FinalizingOffchainClosing b)
    with assms HandleEvent show ?thesis
      by (cases ev; cases "finalizingOffchainClosing.retChan b")
         (auto simp: finalizingOffchainClosing_UpdateState_def trace_sendIfPresent
            trace_DeliverMessagesToVM NewWaitingObserver_def Let_def)
  next
    case (WaitingObserver cfg core)
    with assms HandleEvent show ?thesis by simp
  qed
qed

text \<open>A call uses up the message budget of its state: what it emits and what is left fit in.\<close>
lemma driverCall_msgs:
  assumes "driverCall X s c w = Some ((st, ms, e), w')"
  shows "length ms + (case st of None \<Rightarrow> 0 | Some s' \<Rightarrow> msgBudget s') \<le> msgBudget s"
proof (cases c)
  case (AdvanceTime t)
  with assms show ?thesis
    by (cases s)
       (auto simp: attemptingUnanimousClosing_UpdateTime_def attemptingOffchainClosing_UpdateTime_def
          waitingOffchainClosing_UpdateTime_def finalizingOffchainClosing_UpdateTime_def
          split: if_splits)
next
  case (HandleEvent ev t)
  with assms show ?thesis
    by (cases s; cases ev)
       (auto simp: attemptingUnanimousClosing_UpdateState_def attemptingOffchainClosing_UpdateState_def
          waitingOffchainClosing_UpdateState_def finalizingOffchainClosing_UpdateState_def
          NewWaitingObserver_def Let_def split: if_splits)
qed

lemma msgBudget_le: "msgBudget s \<le> 1"
  by (cases s) auto

subsection \<open>Runs of the driver\<close>

lemma drive_observer:
  "drive X (WaitingObserver cfg core) cs w =
     \<lparr> finalState = Some (WaitingObserver cfg core), outgoing = [], errors = [], finalWorld = w \<rparr>"
  by (cases cs; cases "hd cs") auto

lemma roundOver_Some: "roundOver (Some s) \<Longrightarrow> \<exists>cfg core. s = WaitingObserver cfg core"
  by (cases s) auto

lemma drive_roundOver:
  "roundOver (Some s) \<Longrightarrow>
     drive X s cs w = \<lparr> finalState = Some s, outgoing = [], errors = [], finalWorld = w \<rparr>"
  using roundOver_Some drive_observer by blast

lemma drive_sends:
  "\<exists>es. trace (finalWorld (drive X s cs w)) = trace w @ es \<and>
         (sends es = [] \<or>
          (\<exists>ch v. handoff s = Some ch \<and> sends es = [(ch, v)]
             \<and> roundOver (finalState (drive X s cs w))))"
proof (induction cs arbitrary: s w)
  case Nil
  show ?case by simp
next
  case (Cons c cs)
  show ?case
  proof (cases "driverCall X s c w")
    case None
    then show ?thesis by simp
  next
    case (Some r)
    then obtain st ms e w' where r: "driverCall X s c w = Some ((st, ms, e), w')"
      by (cases r) auto
    from driverCall_sends [OF r] obtain es1 where
      t1: "trace w' = trace w @ es1" and
      d1: "(sends es1 = [] \<and> (roundOver st \<or> (\<exists>s'. st = Some s' \<and> handoff s' = handoff s)))
         \<or> (\<exists>ch v. handoff s = Some ch \<and> sends es1 = [(ch, v)] \<and> roundOver st)"
      by blast
    show ?thesis
    proof (cases st)
      case None
      with r t1 d1 show ?thesis by auto
    next
      case (Some s')
      show ?thesis
      proof (cases "roundOver (Some s')")
        case True
        from drive_roundOver [OF True] have "drive X s' cs w' =
          \<lparr> finalState = Some s', outgoing = [], errors = [], finalWorld = w' \<rparr>" .
        with r Some t1 d1 True show ?thesis by (auto simp: Let_def)
      next
        case False
        with d1 Some have e1: "sends es1 = []" and h: "handoff s' = handoff s" by auto
        from Cons.IH [of s' w'] obtain es2 where
          t2: "trace (finalWorld (drive X s' cs w')) = trace w' @ es2" and
          d2: "sends es2 = [] \<or> (\<exists>ch v. handoff s' = Some ch \<and> sends es2 = [(ch, v)]
                 \<and> roundOver (finalState (drive X s' cs w')))"
          by blast
        have fw: "finalWorld (drive X s (c # cs) w) = finalWorld (drive X s' cs w')"
          and fs: "finalState (drive X s (c # cs) w) = finalState (drive X s' cs w')"
          using r Some by (simp_all add: Let_def)
        have "trace (finalWorld (drive X s (c # cs) w)) = trace w @ (es1 @ es2)"
          using fw t1 t2 by simp
        moreover have "sends (es1 @ es2) = sends es2"
          using e1 by (simp add: sends_append)
        ultimately show ?thesis using d2 h fs by metis
      qed
    qed
  qed
qed

lemma drive_msgs: "length (outgoing (drive X s cs w)) \<le> msgBudget s"
proof (induction cs arbitrary: s w)
  case Nil
  show ?case by simp
next
  case (Cons c cs)
  show ?case
  proof (cases "driverCall X s c w")
    case None
    then show ?thesis by simp
  next
    case (Some r)
    then obtain st ms e w' where r: "driverCall X s c w = Some ((st, ms, e), w')"
      by (cases r) auto
    note b = driverCall_msgs [OF r]
    show ?thesis
    proof (cases st)
      case None
      with r b show ?thesis by simp
    next
      case (Some s')
      with r b Cons.IH [of s' w'] show ?thesis by (simp add: Let_def)
    qed
  qed
qed

text \<open>Time ticks that leave the state alone can be repeated at will.\<close>
lemma drive_ticks:
  assumes "\<And>t. t \<in> set ts \<Longrightarrow> driverCall X s (AdvanceTime t) w = Some ((Some s, [], None), w)"
  shows "drive X s (map AdvanceTime ts) w =
     \<lparr> finalState = Some s, outgoing = [], errors = [], finalWorld = w \<rparr>"
  using assms by (induction ts) (auto simp: Let_def)

subsection \<open>The result handoff\<close>

text \<open>
  Claim C1. Whatever calls a driver makes on a round, from any state and in any world, the
  run only extends the trace, and what it adds holds at most one send: none at all when the
  state has no \<^verbatim>\<open>retChan\<close>, and otherwise nothing or one boolean on that very channel.
\<close>
theorem retChan_at_most_one_send:
  "trace (finalWorld (drive X s cs w)) = trace w @ newEffects w (finalWorld (drive X s cs w))
   \<and> length (sends (newEffects w (finalWorld (drive X s cs w)))) \<le> 1
   \<and> (case handoff s of
        None \<Rightarrow> sends (newEffects w (finalWorld (drive X s cs w))) = []
      | Some ch \<Rightarrow>
          sends (newEffects w (finalWorld (drive X s cs w))) \<in> {[], [(ch, True)], [(ch, False)]})"
proof -
  from drive_sends [of X s cs w] obtain es where
    t: "trace (finalWorld (drive X s cs w)) = trace w @ es" and
    d: "sends es = [] \<or> (\<exists>ch v. handoff s = Some ch \<and> sends es = [(ch, v)])"
    by blast
  have n: "newEffects w (finalWorld (drive X s cs w)) = es"
    by (simp add: newEffects_def t)
  show ?thesis
    using t d unfolding n by (cases "handoff s") auto
qed

text \<open>
  The happy path of an off-chain round, run on the sample values: sequence number 5 is
  matched at time 10 with a grace period of 20, the tick at 30 changes nothing, the tick at
  31 emits the confirmation request, and the confirmation delivers to the core and sends
  \<open>True\<close>.
\<close>
lemma happy_path_example:
  "finalState (drive X0 (AttemptingOffchainClosing offchain0)
      [HandleEvent (ProposedUnanimousAssertEvent 5) 10, AdvanceTime 30, AdvanceTime 31,
       HandleEvent ConfirmedUnanimousAssertEvent 32] w0) = Some (WaitingObserver cfg0 7)
   \<and> outgoing (drive X0 (AttemptingOffchainClosing offchain0)
      [HandleEvent (ProposedUnanimousAssertEvent 5) 10, AdvanceTime 30, AdvanceTime 31,
       HandleEvent ConfirmedUnanimousAssertEvent 32] w0) = [SendConfirmUnanimousAssertedMessage 7 42]
   \<and> errors (drive X0 (AttemptingOffchainClosing offchain0)
      [HandleEvent (ProposedUnanimousAssertEvent 5) 10, AdvanceTime 30, AdvanceTime 31,
       HandleEvent ConfirmedUnanimousAssertEvent 32] w0) = []
   \<and> trace (finalWorld (drive X0 (AttemptingOffchainClosing offchain0)
      [HandleEvent (ProposedUnanimousAssertEvent 5) 10, AdvanceTime 30, AdvanceTime 31,
       HandleEvent ConfirmedUnanimousAssertEvent 32] w0)) = [Delivered 7, Sent 1 True]
   \<and> heap (finalWorld (drive X0 (AttemptingOffchainClosing offchain0)
      [HandleEvent (ProposedUnanimousAssertEvent 5) 10, AdvanceTime 30, AdvanceTime 31,
       HandleEvent ConfirmedUnanimousAssertEvent 32] w0)) 7 = 8"
  by (simp add: X0_def w0_def offchain0_def cfg0_def
        attemptingOffchainClosing_UpdateState_def waitingOffchainClosing_UpdateTime_def
        finalizingOffchainClosing_UpdateState_def NewWaitingObserver_def
        DeliverMessagesToVM_def sendIfPresent_def Let_def)

subsection \<open>The deadline\<close>

text \<open>
  Claim C2. A \<open>waitingOffchainClosing\<close> state with deadline \<open>D\<close> is returned unchanged, with no
  message and no error, by \<open>UpdateTime t\<close> for every \<open>t \<le> D\<close>, so at \<open>t = D\<close>; for every
  \<open>t > D\<close> the call returns the \<open>finalizingOffchainClosing\<close> state, so at the time that is
  one more than \<open>D\<close>. The comparison is strict. (When \<open>D\<close> is the largest \<^verbatim>\<open>uint64\<close> no time
  is one more than \<open>D\<close>; see \<open>deadline_max_never_passes\<close>.)
\<close>
theorem waitingOffchainClosing_UpdateTime_strict_deadline:
  "(time \<le> deadline b \<longrightarrow>
      waitingOffchainClosing_UpdateTime X w b time = (Some (WaitingOffchainClosing b), [], None))
 \<and> (deadline b < time \<longrightarrow>
      waitingOffchainClosing_UpdateTime X w b time =
        (Some (FinalizingOffchainClosing
           \<lparr> finalizingOffchainClosing.validatorConfig = waitingOffchainClosing.validatorConfig b,
             validatorCore = waitingOffchainClosing.validatorCore b,
             retChan = waitingOffchainClosing.retChan b \<rparr>),
         [SendConfirmUnanimousAssertedMessage
            (inboxReceiveHash X (heap w (waitingOffchainClosing.validatorCore b)))
            (waitingOffchainClosing.assertion b)],
         None))
 \<and> waitingOffchainClosing_UpdateTime X w b (deadline b) = (Some (WaitingOffchainClosing b), [], None)
 \<and> (unat time = unat (deadline b) + 1 \<longrightarrow>
      waitingOffchainClosing_UpdateTime X w b time =
        (Some (FinalizingOffchainClosing
           \<lparr> finalizingOffchainClosing.validatorConfig = waitingOffchainClosing.validatorConfig b,
             validatorCore = waitingOffchainClosing.validatorCore b,
             retChan = waitingOffchainClosing.retChan b \<rparr>),
         [SendConfirmUnanimousAssertedMessage
            (inboxReceiveHash X (heap w (waitingOffchainClosing.validatorCore b)))
            (waitingOffchainClosing.assertion b)],
         None))"
  by (auto simp: waitingOffchainClosing_UpdateTime_def word_less_nat_alt word_le_nat_alt)

theorem waitingOffchainClosing_UpdateTime_strict_deadline_witness:
  "(30::uint64) \<le> deadline waiting0 \<and> deadline waiting0 < 31
   \<and> unat (31::uint64) = unat (deadline waiting0) + 1
   \<and> waitingOffchainClosing_UpdateTime X0 w0 waiting0 30 =
       (Some (WaitingOffchainClosing waiting0), [], None)
   \<and> waitingOffchainClosing_UpdateTime X0 w0 waiting0 31 =
       (Some (FinalizingOffchainClosing
          \<lparr> finalizingOffchainClosing.validatorConfig = cfg0, validatorCore = 7,
            retChan = Some 1 \<rparr>),
        [SendConfirmUnanimousAssertedMessage 7 42], None)"
  using waitingOffchainClosing_UpdateTime_strict_deadline [of 30 waiting0 X0 w0]
        waitingOffchainClosing_UpdateTime_strict_deadline [of 31 waiting0 X0 w0]
  by (simp add: waiting0_def X0_def w0_def)

text \<open>
  With the largest \<^verbatim>\<open>uint64\<close> as its deadline a state never leaves: no time exceeds the
  deadline, and the \<^verbatim>\<open>uint64\<close> sum \<open>deadline + 1\<close> is 0.
\<close>
lemma deadline_max_never_passes:
  "deadline b = - 1 \<Longrightarrow>
     waitingOffchainClosing_UpdateTime X w b t = (Some (WaitingOffchainClosing b), [], None)"
  by (simp add: waitingOffchainClosing_UpdateTime_def)

subsection \<open>A proposal seen by attemptingOffchainClosing\<close>

text \<open>
  Claim C3. An \<open>attemptingOffchainClosing\<close> state with sequence number \<open>L\<close> that sees a
  \<open>ProposedUnanimousAssertEvent\<close> with sequence number \<open>R\<close> at time \<open>t\<close>: for \<open>R < L\<close> the
  state is returned unchanged, with no message, no error and nothing sent; for \<open>R > L\<close>
  the call sends \<open>False\<close> on the channel if there is one and returns no state and an
  error; for \<open>R = L\<close> it returns the \<open>waitingOffchainClosing\<close> state whose deadline is the
  \<^verbatim>\<open>uint64\<close> sum of \<open>t\<close> and the grace period, with the assertion and the channel of the
  state.
\<close>
theorem attemptingOffchainClosing_UpdateState_proposed:
  "(R < sequenceNum b \<longrightarrow>
      attemptingOffchainClosing_UpdateState X b (ProposedUnanimousAssertEvent R) t w =
        ((Some (AttemptingOffchainClosing b), None, [], None), w))
 \<and> (sequenceNum b < R \<longrightarrow>
      attemptingOffchainClosing_UpdateState X b (ProposedUnanimousAssertEvent R) t w =
        ((None, None, [], Some (errorString ''unanimous assertion unexpectedly superseded'')),
         (case attemptingOffchainClosing.retChan b of
            None \<Rightarrow> w
          | Some c \<Rightarrow> w\<lparr>trace := trace w @ [Sent c False]\<rparr>)))
 \<and> (R = sequenceNum b \<longrightarrow>
      attemptingOffchainClosing_UpdateState X b (ProposedUnanimousAssertEvent R) t w =
        ((Some (WaitingOffchainClosing
            \<lparr> waitingOffchainClosing.validatorConfig = attemptingOffchainClosing.validatorConfig b,
              validatorCore = GetCore X (attemptingOffchainClosing.validatorCore b),
              assertion = attemptingOffchainClosing.assertion b,
              deadline = t + GracePeriod (config (attemptingOffchainClosing.validatorConfig b)),
              retChan = attemptingOffchainClosing.retChan b \<rparr>), None, [], None), w))"
  by (auto simp: attemptingOffchainClosing_UpdateState_def sendIfPresent_def
        split: option.splits)

theorem attemptingOffchainClosing_UpdateState_proposed_witness:
  "(3::uint64) < sequenceNum offchain0 \<and> sequenceNum offchain0 < (7::uint64)
   \<and> (5::uint64) = sequenceNum offchain0
   \<and> attemptingOffchainClosing_UpdateState X0 offchain0 (ProposedUnanimousAssertEvent 3) 10 w0 =
       ((Some (AttemptingOffchainClosing offchain0), None, [], None), w0)
   \<and> attemptingOffchainClosing_UpdateState X0 offchain0 (ProposedUnanimousAssertEvent 7) 10 w0 =
       ((None, None, [], Some (errorString ''unanimous assertion unexpectedly superseded'')),
        w0\<lparr>trace := [Sent 1 False]\<rparr>)
   \<and> attemptingOffchainClosing_UpdateState X0 offchain0 (ProposedUnanimousAssertEvent 5) 10 w0 =
       ((Some (WaitingOffchainClosing waiting0), None, [], None), w0)"
  using attemptingOffchainClosing_UpdateState_proposed [of 3 offchain0 X0 10 w0]
        attemptingOffchainClosing_UpdateState_proposed [of 7 offchain0 X0 10 w0]
        attemptingOffchainClosing_UpdateState_proposed [of 5 offchain0 X0 10 w0]
  by (simp add: offchain0_def waiting0_def X0_def w0_def cfg0_def)

text \<open>The sum that gives the deadline is a \<^verbatim>\<open>uint64\<close> sum: it wraps around.\<close>
lemma deadline_wraps_example:
  "attemptingOffchainClosing_UpdateState X0
     (offchain0\<lparr>attemptingOffchainClosing.validatorConfig := \<lparr> config = \<lparr> GracePeriod = - 1 \<rparr> \<rparr>\<rparr>)
     (ProposedUnanimousAssertEvent 5) 10 w0 =
   ((Some (WaitingOffchainClosing
       (waiting0\<lparr>waitingOffchainClosing.validatorConfig := \<lparr> config = \<lparr> GracePeriod = - 1 \<rparr> \<rparr>,
                 deadline := 9\<rparr>)), None, [], None), w0)"
  by (simp add: attemptingOffchainClosing_UpdateState_def offchain0_def waiting0_def X0_def)

subsection \<open>The success paths\<close>

text \<open>
  Claim C5. \<open>attemptingUnanimousClosing\<close> on a \<open>FinalUnanimousAssertEvent\<close> and
  \<open>finalizingOffchainClosing\<close> on a \<open>ConfirmedUnanimousAssertEvent\<close> return the waiting
  observer built from the configuration and the core of the state, no challenge state, no
  outgoing message and no error. The first sends \<open>True\<close> on the channel if there is one and
  then calls \<^verbatim>\<open>DeliverMessagesToVM\<close> once; the second calls \<^verbatim>\<open>DeliverMessagesToVM\<close> once and
  then sends \<open>True\<close> on the channel if there is one. Nothing else happens.
\<close>
theorem success_paths:
  "attemptingUnanimousClosing_UpdateState X b1 FinalUnanimousAssertEvent t w =
     ((Some (WaitingObserver (attemptingUnanimousClosing.validatorConfig b1)
               (attemptingUnanimousClosing.validatorCore b1)), None, [], None),
      w\<lparr>heap := (heap w)(attemptingUnanimousClosing.validatorCore b1 :=
                   deliver X (heap w (attemptingUnanimousClosing.validatorCore b1))),
        trace := trace w
          @ (case attemptingUnanimousClosing.retChan b1 of None \<Rightarrow> [] | Some c \<Rightarrow> [Sent c True])
          @ [Delivered (attemptingUnanimousClosing.validatorCore b1)]\<rparr>)
 \<and> finalizingOffchainClosing_UpdateState X b4 ConfirmedUnanimousAssertEvent t w =
     ((Some (WaitingObserver (finalizingOffchainClosing.validatorConfig b4)
               (finalizingOffchainClosing.validatorCore b4)), None, [], None),
      w\<lparr>heap := (heap w)(GetCore X (finalizingOffchainClosing.validatorCore b4) :=
                   deliver X (heap w (GetCore X (finalizingOffchainClosing.validatorCore b4)))),
        trace := trace w
          @ [Delivered (GetCore X (finalizingOffchainClosing.validatorCore b4))]
          @ (case finalizingOffchainClosing.retChan b4 of None \<Rightarrow> [] | Some c \<Rightarrow> [Sent c True])\<rparr>)
 \<and> length (deliveries (newEffects w
      (snd (attemptingUnanimousClosing_UpdateState X b1 FinalUnanimousAssertEvent t w)))) = 1
 \<and> length (deliveries (newEffects w
      (snd (finalizingOffchainClosing_UpdateState X b4 ConfirmedUnanimousAssertEvent t w)))) = 1"
  by (simp add: attemptingUnanimousClosing_UpdateState_def finalizingOffchainClosing_UpdateState_def
        NewWaitingObserver_def DeliverMessagesToVM_def sendIfPresent_def newEffects_def Let_def
        split: option.splits)

subsection \<open>Unhandled events\<close>

text \<open>
  Claim C6. On an event that its switch does not name, \<open>attemptingUnanimousClosing\<close> (which
  names the proposed, the disputable and the final event) and \<open>finalizingOffchainClosing\<close>
  (which names the confirmed event) return no state and the desynchronisation error, and
  leave the world as it is: nothing is sent. On an event that their switches do not name,
  \<open>attemptingOffchainClosing\<close> and \<open>waitingOffchainClosing\<close> return the same, but first send
  \<open>False\<close> on the channel if there is one.
\<close>
theorem unhandled_events:
  "((\<forall>n. ev \<noteq> ProposedUnanimousAssertEvent n) \<and> ev \<noteq> DisputableAssertionEvent
      \<and> ev \<noteq> FinalUnanimousAssertEvent \<longrightarrow>
      attemptingUnanimousClosing_UpdateState X b1 ev t w =
        ((None, None, [], Some unsynchronized), w))
 \<and> (ev \<noteq> ConfirmedUnanimousAssertEvent \<longrightarrow>
      finalizingOffchainClosing_UpdateState X b4 ev t w =
        ((None, None, [], Some unsynchronized), w))
 \<and> ((\<forall>n. ev \<noteq> ProposedUnanimousAssertEvent n) \<and> ev \<noteq> DisputableAssertionEvent
      \<and> ev \<noteq> FinalUnanimousAssertEvent \<longrightarrow>
      attemptingOffchainClosing_UpdateState X b2 ev t w =
        ((None, None, [], Some unsynchronized),
         (case attemptingOffchainClosing.retChan b2 of
            None \<Rightarrow> w
          | Some c \<Rightarrow> w\<lparr>trace := trace w @ [Sent c False]\<rparr>)))
 \<and> ((\<forall>n. ev \<noteq> ProposedUnanimousAssertEvent n) \<and> ev \<noteq> FinalUnanimousAssertEvent \<longrightarrow>
      waitingOffchainClosing_UpdateState X b3 ev t w =
        ((None, None, [], Some unsynchronized),
         (case waitingOffchainClosing.retChan b3 of
            None \<Rightarrow> w
          | Some c \<Rightarrow> w\<lparr>trace := trace w @ [Sent c False]\<rparr>)))"
  by (cases ev)
     (simp_all add: attemptingUnanimousClosing_UpdateState_def
        finalizingOffchainClosing_UpdateState_def attemptingOffchainClosing_UpdateState_def
        waitingOffchainClosing_UpdateState_def sendIfPresent_def)

theorem unhandled_events_witness:
  "(\<forall>n. OtherEvent 0 \<noteq> ProposedUnanimousAssertEvent n) \<and> OtherEvent 0 \<noteq> DisputableAssertionEvent
   \<and> OtherEvent 0 \<noteq> FinalUnanimousAssertEvent \<and> OtherEvent 0 \<noteq> ConfirmedUnanimousAssertEvent
   \<and> attemptingUnanimousClosing_UpdateState X0 unanimous0 (OtherEvent 0) 10 w0 =
       ((None, None, [], Some unsynchronized), w0)
   \<and> finalizingOffchainClosing_UpdateState X0 finalizing0 (OtherEvent 0) 10 w0 =
       ((None, None, [], Some unsynchronized), w0)
   \<and> attemptingOffchainClosing_UpdateState X0 offchain0 (OtherEvent 0) 10 w0 =
       ((None, None, [], Some unsynchronized), w0\<lparr>trace := [Sent 1 False]\<rparr>)
   \<and> waitingOffchainClosing_UpdateState X0 waiting0 (OtherEvent 0) 10 w0 =
       ((None, None, [], Some unsynchronized), w0\<lparr>trace := [Sent 1 False]\<rparr>)"
  using unhandled_events [of "OtherEvent 0" X0 unanimous0 10 w0 finalizing0 offchain0 waiting0]
  by (simp add: offchain0_def waiting0_def w0_def)

text \<open>
  Claim C7. \<open>waitingOffchainClosing\<close> ends the round on every event: it sends \<open>False\<close> on the
  channel if there is one and returns no state, no challenge state, no message and an
  error. The error of a proposed event ends in "superseded by sequence number", the error
  of a final event ends in "superseded by final assert", and every other event, the
  disputable one among them, gives the desynchronisation error.
\<close>
theorem waitingOffchainClosing_UpdateState_terminates:
  "waitingOffchainClosing_UpdateState X b ev t w =
     ((None, None, [],
       Some (case ev of
               ProposedUnanimousAssertEvent n \<Rightarrow>
                 errorString ''unanimous assertion unexpectedly superseded by sequence number''
             | FinalUnanimousAssertEvent \<Rightarrow>
                 errorString ''unanimous assertion unexpectedly superseded by final assert''
             | DisputableAssertionEvent \<Rightarrow> unsynchronized
             | ConfirmedUnanimousAssertEvent \<Rightarrow> unsynchronized
             | OtherEvent k \<Rightarrow> unsynchronized)),
      (case waitingOffchainClosing.retChan b of
         None \<Rightarrow> w
       | Some c \<Rightarrow> w\<lparr>trace := trace w @ [Sent c False]\<rparr>))
 \<and> waitingOffchainClosing_UpdateState X b DisputableAssertionEvent t w =
     ((None, None, [],
       Some (Error None ''ERROR: waitingAssertDefender: VM state got unsynchronized'')),
      (case waitingOffchainClosing.retChan b of
         None \<Rightarrow> w
       | Some c \<Rightarrow> w\<lparr>trace := trace w @ [Sent c False]\<rparr>))
 \<and> suffix ''superseded by sequence number''
      ''unanimous assertion unexpectedly superseded by sequence number''
 \<and> suffix ''superseded by final assert''
      ''unanimous assertion unexpectedly superseded by final assert''"
proof -
  have "''unanimous assertion unexpectedly superseded by sequence number'' =
        ''unanimous assertion unexpectedly '' @ ''superseded by sequence number''"
    by simp
  then have s1: "suffix ''superseded by sequence number''
      ''unanimous assertion unexpectedly superseded by sequence number''"
    by (rule suffixI)
  have "''unanimous assertion unexpectedly superseded by final assert'' =
        ''unanimous assertion unexpectedly '' @ ''superseded by final assert''"
    by simp
  then have s2: "suffix ''superseded by final assert''
      ''unanimous assertion unexpectedly superseded by final assert''"
    by (rule suffixI)
  show ?thesis
    using s1 s2
    by (cases ev)
       (simp_all add: waitingOffchainClosing_UpdateState_def sendIfPresent_def unsynchronized_def)
qed

subsection \<open>Outgoing messages\<close>

text \<open>
  Claim C4, as the code has it. A \<open>SendConfirmUnanimousAssertedMessage\<close> is emitted at most
  once per round, and only by the \<open>UpdateTime\<close> call that takes \<open>waitingOffchainClosing\<close> to
  \<open>finalizingOffchainClosing\<close>: that call returns a list of exactly one message, which
  carries the hash of the inbox of the core as it is in the heap at the call and the
  assertion of the state. Every other call on any of the four states returns the empty
  list, and so a run of the driver gathers at most one message.
\<close>
theorem confirm_message_at_most_once:
  "(deadline b3 < t \<longrightarrow>
      waitingOffchainClosing_UpdateTime X w b3 t =
        (Some (FinalizingOffchainClosing
           \<lparr> finalizingOffchainClosing.validatorConfig = waitingOffchainClosing.validatorConfig b3,
             validatorCore = waitingOffchainClosing.validatorCore b3,
             retChan = waitingOffchainClosing.retChan b3 \<rparr>),
         [SendConfirmUnanimousAssertedMessage
            (inboxReceiveHash X (heap w (waitingOffchainClosing.validatorCore b3)))
            (waitingOffchainClosing.assertion b3)],
         None))
 \<and> (t \<le> deadline b3 \<longrightarrow> fst (snd (waitingOffchainClosing_UpdateTime X w b3 t)) = [])
 \<and> fst (snd (attemptingUnanimousClosing_UpdateTime b1 t)) = ([] :: ('h, 'a) OutgoingMessage list)
 \<and> fst (snd (attemptingOffchainClosing_UpdateTime b2 t)) = ([] :: ('h, 'a) OutgoingMessage list)
 \<and> fst (snd (finalizingOffchainClosing_UpdateTime b4 t)) = ([] :: ('h, 'a) OutgoingMessage list)
 \<and> (case attemptingUnanimousClosing_UpdateState X b1 ev t w of
       ((st, ch, ms, e), w') \<Rightarrow> ms = ([] :: ('h, 'a) OutgoingMessage list))
 \<and> (case attemptingOffchainClosing_UpdateState X b2 ev t w of
       ((st, ch, ms, e), w') \<Rightarrow> ms = ([] :: ('h, 'a) OutgoingMessage list))
 \<and> (case waitingOffchainClosing_UpdateState X b3 ev t w of
       ((st, ch, ms, e), w') \<Rightarrow> ms = ([] :: ('h, 'a) OutgoingMessage list))
 \<and> (case finalizingOffchainClosing_UpdateState X b4 ev t w of
       ((st, ch, ms, e), w') \<Rightarrow> ms = ([] :: ('h, 'a) OutgoingMessage list))
 \<and> length (outgoing (drive X s cs w)) \<le> 1"
proof -
  have run: "length (outgoing (drive X s cs w)) \<le> 1"
    using drive_msgs [of X s cs w] msgBudget_le [of s] by simp
  have calls:
    "(case attemptingUnanimousClosing_UpdateState X b1 ev t w of
        ((st, ch, ms, e), w') \<Rightarrow> ms = ([] :: ('h, 'a) OutgoingMessage list))"
    "(case attemptingOffchainClosing_UpdateState X b2 ev t w of
        ((st, ch, ms, e), w') \<Rightarrow> ms = ([] :: ('h, 'a) OutgoingMessage list))"
    "(case waitingOffchainClosing_UpdateState X b3 ev t w of
        ((st, ch, ms, e), w') \<Rightarrow> ms = ([] :: ('h, 'a) OutgoingMessage list))"
    "(case finalizingOffchainClosing_UpdateState X b4 ev t w of
        ((st, ch, ms, e), w') \<Rightarrow> ms = ([] :: ('h, 'a) OutgoingMessage list))"
    by (cases ev;
        simp add: attemptingUnanimousClosing_UpdateState_def
          attemptingOffchainClosing_UpdateState_def waitingOffchainClosing_UpdateState_def
          finalizingOffchainClosing_UpdateState_def Let_def)+
  have ticks:
    "deadline b3 < t \<longrightarrow>
      waitingOffchainClosing_UpdateTime X w b3 t =
        (Some (FinalizingOffchainClosing
           \<lparr> finalizingOffchainClosing.validatorConfig = waitingOffchainClosing.validatorConfig b3,
             validatorCore = waitingOffchainClosing.validatorCore b3,
             retChan = waitingOffchainClosing.retChan b3 \<rparr>),
         [SendConfirmUnanimousAssertedMessage
            (inboxReceiveHash X (heap w (waitingOffchainClosing.validatorCore b3)))
            (waitingOffchainClosing.assertion b3)],
         None)"
    "t \<le> deadline b3 \<longrightarrow> fst (snd (waitingOffchainClosing_UpdateTime X w b3 t)) = []"
    "fst (snd (attemptingUnanimousClosing_UpdateTime b1 t)) = ([] :: ('h, 'a) OutgoingMessage list)"
    "fst (snd (attemptingOffchainClosing_UpdateTime b2 t)) = ([] :: ('h, 'a) OutgoingMessage list)"
    "fst (snd (finalizingOffchainClosing_UpdateTime b4 t)) = ([] :: ('h, 'a) OutgoingMessage list)"
    by (auto simp: waitingOffchainClosing_UpdateTime_def attemptingUnanimousClosing_UpdateTime_def
          attemptingOffchainClosing_UpdateTime_def finalizingOffchainClosing_UpdateTime_def)
  from ticks calls run show ?thesis by blast
qed

theorem confirm_message_at_most_once_witness:
  "deadline waiting0 < (31::uint64) \<and> (30::uint64) \<le> deadline waiting0
   \<and> waitingOffchainClosing_UpdateTime X0 w0 waiting0 31 =
       (Some (FinalizingOffchainClosing finalizing0),
        [SendConfirmUnanimousAssertedMessage 7 42], None)
   \<and> fst (snd (waitingOffchainClosing_UpdateTime X0 w0 waiting0 30)) = []"
  using confirm_message_at_most_once
          [of waiting0 31 X0 w0 unanimous0 offchain0 finalizing0 DisputableAssertionEvent
              "WaitingOffchainClosing waiting0" "[]"]
        confirm_message_at_most_once
          [of waiting0 30 X0 w0 unanimous0 offchain0 finalizing0 DisputableAssertionEvent
              "WaitingOffchainClosing waiting0" "[]"]
  by (simp add: waiting0_def finalizing0_def X0_def w0_def)

text \<open>
  The claim as it was stated, "exactly once per round", fails: the round that starts in
  \<open>attemptingUnanimousClosing\<close> and sees the final event ends in the waiting observer and
  has emitted no message.
\<close>
theorem confirm_message_exactly_once_counterexample:
  "finalState (drive X0 (AttemptingUnanimousClosing unanimous0)
      [HandleEvent FinalUnanimousAssertEvent 10] w0) = Some (WaitingObserver cfg0 7)
   \<and> length (outgoing (drive X0 (AttemptingUnanimousClosing unanimous0)
      [HandleEvent FinalUnanimousAssertEvent 10] w0)) \<noteq> 1"
  by (simp add: attemptingUnanimousClosing_UpdateState_def NewWaitingObserver_def
        unanimous0_def Let_def)

subsection \<open>Time ticks that change nothing\<close>

text \<open>
  Claim C8. \<open>UpdateTime\<close> returns the state unchanged, with no message and no error, for
  \<open>attemptingUnanimousClosing\<close>, \<open>attemptingOffchainClosing\<close> and \<open>finalizingOffchainClosing\<close>
  at every time, and for \<open>waitingOffchainClosing\<close> at every time that does not exceed the
  deadline. Any list of such calls, made one after the other, ends in the same state and
  the same world, with no message and no error.
\<close>
theorem UpdateTime_idempotent:
  "attemptingUnanimousClosing_UpdateTime b1 t = (Some (AttemptingUnanimousClosing b1), [], None)
 \<and> attemptingOffchainClosing_UpdateTime b2 t = (Some (AttemptingOffchainClosing b2), [], None)
 \<and> finalizingOffchainClosing_UpdateTime b4 t = (Some (FinalizingOffchainClosing b4), [], None)
 \<and> (t \<le> deadline b3 \<longrightarrow>
      waitingOffchainClosing_UpdateTime X w b3 t = (Some (WaitingOffchainClosing b3), [], None))
 \<and> drive X (AttemptingUnanimousClosing b1) (map AdvanceTime ts) w =
      \<lparr> finalState = Some (AttemptingUnanimousClosing b1), outgoing = [], errors = [],
        finalWorld = w \<rparr>
 \<and> drive X (AttemptingOffchainClosing b2) (map AdvanceTime ts) w =
      \<lparr> finalState = Some (AttemptingOffchainClosing b2), outgoing = [], errors = [],
        finalWorld = w \<rparr>
 \<and> drive X (FinalizingOffchainClosing b4) (map AdvanceTime ts) w =
      \<lparr> finalState = Some (FinalizingOffchainClosing b4), outgoing = [], errors = [],
        finalWorld = w \<rparr>
 \<and> ((\<forall>u \<in> set ts. u \<le> deadline b3) \<longrightarrow>
      drive X (WaitingOffchainClosing b3) (map AdvanceTime ts) w =
        \<lparr> finalState = Some (WaitingOffchainClosing b3), outgoing = [], errors = [],
          finalWorld = w \<rparr>)"
proof -
  have one:
    "attemptingUnanimousClosing_UpdateTime b1 t = (Some (AttemptingUnanimousClosing b1), [], None)"
    "attemptingOffchainClosing_UpdateTime b2 t = (Some (AttemptingOffchainClosing b2), [], None)"
    "finalizingOffchainClosing_UpdateTime b4 t = (Some (FinalizingOffchainClosing b4), [], None)"
    "t \<le> deadline b3 \<longrightarrow>
      waitingOffchainClosing_UpdateTime X w b3 t = (Some (WaitingOffchainClosing b3), [], None)"
    by (auto simp: attemptingUnanimousClosing_UpdateTime_def attemptingOffchainClosing_UpdateTime_def
          finalizingOffchainClosing_UpdateTime_def waitingOffchainClosing_UpdateTime_def)
  have r1: "drive X (AttemptingUnanimousClosing b1) (map AdvanceTime ts) w =
      \<lparr> finalState = Some (AttemptingUnanimousClosing b1), outgoing = [], errors = [],
        finalWorld = w \<rparr>"
    by (rule drive_ticks) (simp add: attemptingUnanimousClosing_UpdateTime_def)
  have r2: "drive X (AttemptingOffchainClosing b2) (map AdvanceTime ts) w =
      \<lparr> finalState = Some (AttemptingOffchainClosing b2), outgoing = [], errors = [],
        finalWorld = w \<rparr>"
    by (rule drive_ticks) (simp add: attemptingOffchainClosing_UpdateTime_def)
  have r4: "drive X (FinalizingOffchainClosing b4) (map AdvanceTime ts) w =
      \<lparr> finalState = Some (FinalizingOffchainClosing b4), outgoing = [], errors = [],
        finalWorld = w \<rparr>"
    by (rule drive_ticks) (simp add: finalizingOffchainClosing_UpdateTime_def)
  have r3: "(\<forall>u \<in> set ts. u \<le> deadline b3) \<longrightarrow>
      drive X (WaitingOffchainClosing b3) (map AdvanceTime ts) w =
        \<lparr> finalState = Some (WaitingOffchainClosing b3), outgoing = [], errors = [],
          finalWorld = w \<rparr>"
  proof
    assume le: "\<forall>u \<in> set ts. u \<le> deadline b3"
    show "drive X (WaitingOffchainClosing b3) (map AdvanceTime ts) w =
        \<lparr> finalState = Some (WaitingOffchainClosing b3), outgoing = [], errors = [],
          finalWorld = w \<rparr>"
    proof (rule drive_ticks)
      fix u assume "u \<in> set ts"
      with le have "\<not> deadline b3 < u" by auto
      then show "driverCall X (WaitingOffchainClosing b3) (AdvanceTime u) w =
          Some ((Some (WaitingOffchainClosing b3), [], None), w)"
        by (simp add: waitingOffchainClosing_UpdateTime_def)
    qed
  qed
  from one r1 r2 r4 r3 show ?thesis by blast
qed

theorem UpdateTime_idempotent_witness:
  "(30::uint64) \<le> deadline waiting0
   \<and> (waitingOffchainClosing_UpdateTime X0 w0 waiting0 30 ::
        nat validatorState option \<times> (nat, nat) OutgoingMessage list \<times> error option) =
       (Some (WaitingOffchainClosing waiting0), [], None)
   \<and> list_all (\<lambda>u. u \<le> deadline waiting0) [0, 30, 30, 12 :: uint64]
   \<and> (drive X0 (WaitingOffchainClosing waiting0) (map AdvanceTime [0, 30, 30, 12]) w0 ::
        (nat, nat, nat) outcome) =
       \<lparr> finalState = Some (WaitingOffchainClosing waiting0), outgoing = [], errors = [],
         finalWorld = w0 \<rparr>"
proof -
  note T = UpdateTime_idempotent
             [of unanimous0 30 offchain0 finalizing0 waiting0 X0 w0 "[0, 30, 30, 12]"]
  have h1: "(30::uint64) \<le> deadline waiting0"
    by (simp add: waiting0_def)
  have h2: "\<forall>u \<in> set [0, 30, 30, 12 :: uint64]. u \<le> deadline waiting0"
    by (simp add: waiting0_def)
  have h3: "list_all (\<lambda>u. u \<le> deadline waiting0) [0, 30, 30, 12 :: uint64]"
    by (simp add: waiting0_def)
  from T h1 have a: "(waitingOffchainClosing_UpdateTime X0 w0 waiting0 30 ::
        nat validatorState option \<times> (nat, nat) OutgoingMessage list \<times> error option) =
       (Some (WaitingOffchainClosing waiting0), [], None)"
    by blast
  from T h2 have b: "(drive X0 (WaitingOffchainClosing waiting0)
        (map AdvanceTime [0, 30, 30, 12]) w0 :: (nat, nat, nat) outcome) =
       \<lparr> finalState = Some (WaitingOffchainClosing waiting0), outgoing = [], errors = [],
         finalWorld = w0 \<rparr>"
    by blast
  from h1 a h3 b show ?thesis by blast
qed

subsection \<open>The shape of the results of UpdateState\<close>

text \<open>
  Claim C9. The challenge state that \<open>UpdateState\<close> returns is \<^verbatim>\<open>nil\<close>, for each of the four
  states, every event, every time and every world.
\<close>
theorem UpdateState_challengeState_nil:
  "(case attemptingUnanimousClosing_UpdateState X b1 ev t w of
      ((st, ch, ms, e), w') \<Rightarrow> ch = None)
 \<and> (case attemptingOffchainClosing_UpdateState X b2 ev t w of
      ((st, ch, ms, e), w') \<Rightarrow> ch = None)
 \<and> (case waitingOffchainClosing_UpdateState X b3 ev t w of
      ((st, ch, ms, e), w') \<Rightarrow> ch = None)
 \<and> (case finalizingOffchainClosing_UpdateState X b4 ev t w of
      ((st, ch, ms, e), w') \<Rightarrow> ch = None)"
  by (cases ev;
      simp add: attemptingUnanimousClosing_UpdateState_def
        attemptingOffchainClosing_UpdateState_def waitingOffchainClosing_UpdateState_def
        finalizingOffchainClosing_UpdateState_def Let_def)

text \<open>
  Claim C10. \<open>UpdateState\<close> returns an error exactly when it returns no state, for each of
  the four states, every event, every time and every world: a call that succeeds returns a
  state and no error, a call that fails returns an error and no state.
\<close>
theorem UpdateState_error_iff_nil_state:
  "(case attemptingUnanimousClosing_UpdateState X b1 ev t w of
      ((st, ch, ms, e), w') \<Rightarrow> (e \<noteq> None) = (st = None))
 \<and> (case attemptingOffchainClosing_UpdateState X b2 ev t w of
      ((st, ch, ms, e), w') \<Rightarrow> (e \<noteq> None) = (st = None))
 \<and> (case waitingOffchainClosing_UpdateState X b3 ev t w of
      ((st, ch, ms, e), w') \<Rightarrow> (e \<noteq> None) = (st = None))
 \<and> (case finalizingOffchainClosing_UpdateState X b4 ev t w of
      ((st, ch, ms, e), w') \<Rightarrow> (e \<noteq> None) = (st = None))"
  by (cases ev;
      simp add: attemptingUnanimousClosing_UpdateState_def
        attemptingOffchainClosing_UpdateState_def waitingOffchainClosing_UpdateState_def
        finalizingOffchainClosing_UpdateState_def Let_def)

end
